theory Spec2Isabelle
  imports Complex_Main
begin

section \<open>JavaScript values\<close>

text \<open>
  The values the handlers of \<^verbatim>\<open>App.jsx\<close> read and store: what \<^verbatim>\<open>response.json()\<close>
  yields (null, booleans, numbers, strings, arrays, objects), \<^verbatim>\<open>undefined\<close> (the result of
  reading a property that is not there) and \<^verbatim>\<open>Date\<close> objects (\<^verbatim>\<open>new Date()\<close>, given by
  their time value). An object is the list of its own properties in insertion order,
  each key once. Characters are 8-bit code units.
\<close>

datatype jsval =
    JUndefined
  | JNull
  | JBool bool
  | JNum rat
  | JStr string
  | JArr "jsval list"
  | JObj "(string \<times> jsval) list"
  | JDate nat

datatype exn = TypeError | NetworkError | SyntaxError | QuotaExceededError

text \<open>ToBoolean, as used by \<^verbatim>\<open>!user\<close> and by the left operand of \<^verbatim>\<open>&&\<close>.\<close>

fun truthy :: "jsval \<Rightarrow> bool" where
  "truthy JUndefined = False"
| "truthy JNull = False"
| "truthy (JBool b) = b"
| "truthy (JNum n) = (n \<noteq> 0)"
| "truthy (JStr s) = (s \<noteq> [])"
| "truthy (JArr xs) = True"
| "truthy (JObj kvs) = True"
| "truthy (JDate t) = True"

text \<open>
  Reading a named property \<^verbatim>\<open>v.k\<close>, for the names the source reads (\<^verbatim>\<open>candidates\<close>,
  \<^verbatim>\<open>length\<close>, \<^verbatim>\<open>content\<close>, \<^verbatim>\<open>parts\<close>, \<^verbatim>\<open>text\<close>, \<^verbatim>\<open>prompt\<close>, \<^verbatim>\<open>response\<close>,
  \<^verbatim>\<open>timestamp\<close>): on \<^verbatim>\<open>undefined\<close> and \<^verbatim>\<open>null\<close> it throws a TypeError, on an object it
  is the own property or \<^verbatim>\<open>undefined\<close>, arrays and strings have \<^verbatim>\<open>length\<close>, and every
  other read is \<^verbatim>\<open>undefined\<close>.
\<close>

fun js_prop :: "jsval \<Rightarrow> string \<Rightarrow> exn + jsval" where
  "js_prop JUndefined k = Inl TypeError"
| "js_prop JNull k = Inl TypeError"
| "js_prop (JObj kvs) k = Inr (case map_of kvs k of None \<Rightarrow> JUndefined | Some v \<Rightarrow> v)"
| "js_prop (JArr xs) k = Inr (if k = ''length'' then JNum (of_nat (length xs)) else JUndefined)"
| "js_prop (JStr s) k = Inr (if k = ''length'' then JNum (of_nat (length s)) else JUndefined)"
| "js_prop (JBool b) k = Inr JUndefined"
| "js_prop (JNum n) k = Inr JUndefined"
| "js_prop (JDate t) k = Inr JUndefined"

text \<open>Reading the element \<^verbatim>\<open>v[0]\<close>.\<close>

fun js_first :: "jsval \<Rightarrow> exn + jsval" where
  "js_first JUndefined = Inl TypeError"
| "js_first JNull = Inl TypeError"
| "js_first (JArr xs) = Inr (case xs of [] \<Rightarrow> JUndefined | x # _ \<Rightarrow> x)"
| "js_first (JObj kvs) = Inr (case map_of kvs ''0'' of None \<Rightarrow> JUndefined | Some v \<Rightarrow> v)"
| "js_first (JStr s) = Inr (case s of [] \<Rightarrow> JUndefined | c # _ \<Rightarrow> JStr [c])"
| "js_first (JBool b) = Inr JUndefined"
| "js_first (JNum n) = Inr JUndefined"
| "js_first (JDate t) = Inr JUndefined"

text \<open>
  The comparison \<^verbatim>\<open>v > 0\<close>. For \<^verbatim>\<open>undefined\<close>, \<^verbatim>\<open>null\<close>, booleans and numbers it is
  decided here; a string or an object operand is first converted by the language
  (ToPrimitive, StringToNumber), which is the parameter \<open>conv\<close>.
\<close>

fun js_gt_zero :: "(jsval \<Rightarrow> bool) \<Rightarrow> jsval \<Rightarrow> bool" where
  "js_gt_zero conv JUndefined = False"
| "js_gt_zero conv JNull = False"
| "js_gt_zero conv (JBool b) = b"
| "js_gt_zero conv (JNum n) = (0 < n)"
| "js_gt_zero conv v = conv v"

text \<open>Sequencing of reads that may throw.\<close>

definition and_then :: "exn + 'a \<Rightarrow> ('a \<Rightarrow> exn + 'b) \<Rightarrow> exn + 'b" where
  "and_then r f = (case r of Inl e \<Rightarrow> Inl e | Inr v \<Rightarrow> f v)"

text \<open>
  \<^verbatim>\<open>String.prototype.trim\<close>: the white space and line terminators of the language that
  are 8-bit code units (TAB, LF, VT, FF, CR, SPACE, NBSP).
\<close>

definition is_ws :: "char \<Rightarrow> bool" where
  "is_ws c = (c \<in> {CHR 0x09, CHR 0x0A, CHR 0x0B, CHR 0x0C, CHR 0x0D, CHR 0x20, CHR 0xA0})"

definition trim :: "string \<Rightarrow> string" where
  "trim s = rev (dropWhile is_ws (rev (dropWhile is_ws s)))"

section \<open>State of the App component\<close>

text \<open>A Message; its \<^verbatim>\<open>text\<close> field is \<open>text'\<close> here.\<close>

record message =
  text' :: jsval
  isUser :: bool
  timestamp :: jsval

record app_state =
  prompt :: string
  messages :: "message list"
  chatSessions :: "message list list"
  isLoading :: bool
  user :: jsval

definition maxMessagesPerSession :: nat where
  "maxMessagesPerSession = 20"

text \<open>What a handler does to the outside, in the order it does it.\<close>

datatype effect =
    PreventDefault
  | Alert string
  | FetchGenerate string jsval
  | FetchSave jsval
  | FetchHistory
  | ConsoleError string
  | StorageSet string "message list list"

fun is_network :: "effect \<Rightarrow> bool" where
  "is_network (FetchGenerate key body) = True"
| "is_network (FetchSave body) = True"
| "is_network FetchHistory = True"
| "is_network e = False"

section \<open>The handlers\<close>

subsection \<open>handleSubmit\<close>

text \<open>
  What the environment answers during one call of \<^verbatim>\<open>handleSubmit\<close>: the two clock
  readings, the API key, the outcome of the generation request (the \<^verbatim>\<open>fetch\<close> promise
  rejects, \<^verbatim>\<open>response.json()\<close> rejects, or a body is parsed, whatever the HTTP status),
  the outcome of the save request (its promise rejects or resolves), and the language's
  conversion for \<^verbatim>\<open>> 0\<close>. Every awaited promise settles, and no other handler runs
  between the start of a call and its end.
\<close>

datatype fetch_result = FetchRejected | JsonRejected | Body jsval

datatype save_result = SaveRejected | SaveResolved

record submit_env =
  now_user :: nat
  now_bot :: nat
  apiKey :: string
  generation :: fetch_result
  persistence :: save_result
  to_number_gt_zero :: "jsval \<Rightarrow> bool"

text \<open>How the promise of the async handler settles.\<close>

datatype settled = Fulfilled_Navigate | Fulfilled_Undefined | Rejected exn

text \<open>Line 103: \<^verbatim>\<open>data.candidates && data.candidates.length > 0\<close>.\<close>

definition has_candidates :: "submit_env \<Rightarrow> jsval \<Rightarrow> exn + bool" where
  "has_candidates env data =
     and_then (js_prop data ''candidates'') (\<lambda>c.
       if \<not> truthy c then Inr False
       else and_then (js_prop c ''length'') (\<lambda>n. Inr (js_gt_zero (to_number_gt_zero env) n)))"

text \<open>Line 104: \<^verbatim>\<open>data.candidates[0].content.parts[0].text\<close>.\<close>

definition botReply :: "jsval \<Rightarrow> exn + jsval" where
  "botReply data =
     and_then (js_prop data ''candidates'') (\<lambda>cs.
     and_then (js_first cs) (\<lambda>c.
     and_then (js_prop c ''content'') (\<lambda>content.
     and_then (js_prop content ''parts'') (\<lambda>parts.
     and_then (js_first parts) (\<lambda>part.
       js_prop part ''text'')))))"

definition generate_body :: "string \<Rightarrow> jsval" where
  "generate_body p = JObj [(''contents'', JArr [JObj [(''parts'', JArr [JObj [(''text'', JStr p)]])]])]"

definition save_body :: "string \<Rightarrow> jsval \<Rightarrow> jsval" where
  "save_body p reply = JObj [(''prompt'', JStr p), (''response'', reply)]"

text \<open>
  Lines 90 to 118, the body of the \<^verbatim>\<open>try\<close>: \<open>Inl\<close> is the exception that leaves it.
  \<open>p\<close> and \<open>newMessages\<close> are the handler's captured \<^verbatim>\<open>prompt\<close> and \<^verbatim>\<open>newMessages\<close>.
\<close>

definition try_block ::
  "submit_env \<Rightarrow> string \<Rightarrow> message list \<Rightarrow> app_state \<Rightarrow> (exn + unit) \<times> app_state \<times> effect list" where
  "try_block env p newMessages st =
     (let sent = [FetchGenerate (apiKey env) (generate_body p)] in
      case generation env of
        FetchRejected \<Rightarrow> (Inl NetworkError, st, sent)
      | JsonRejected \<Rightarrow> (Inl SyntaxError, st, sent)
      | Body data \<Rightarrow>
          (case has_candidates env data of
             Inl e \<Rightarrow> (Inl e, st, sent)
           | Inr ok \<Rightarrow>
               if ok then
                 (case botReply data of
                    Inl e \<Rightarrow> (Inl e, st, sent)
                  | Inr reply \<Rightarrow>
                      (let st' = st\<lparr>messages := newMessages @
                                  [\<lparr>text' = reply, isUser = False, timestamp = JDate (now_bot env)\<rparr>]\<rparr>;
                           sent' = sent @ [FetchSave (save_body p reply)]
                       in case persistence env of
                            SaveRejected \<Rightarrow> (Inl NetworkError, st', sent')
                          | SaveResolved \<Rightarrow> (Inr (), st', sent')))
               else (Inr (), st, sent @ [ConsoleError ''Unexpected API response:''])))"

text \<open>Lines 80 to 86: the state while the generation request is awaited.\<close>

definition pending :: "submit_env \<Rightarrow> app_state \<Rightarrow> app_state" where
  "pending env st =
     st\<lparr>messages := messages st @
            [\<lparr>text' = JStr (prompt st), isUser = True, timestamp = JDate (now_user env)\<rparr>],
        prompt := [],
        isLoading := True\<rparr>"

text \<open>Lines 68 to 124. The result is the state left, the effects, and how the call settles.\<close>

definition handleSubmit :: "submit_env \<Rightarrow> app_state \<Rightarrow> app_state \<times> effect list \<times> settled" where
  "handleSubmit env st =
     (if \<not> truthy (user st) then (st, [PreventDefault], Fulfilled_Navigate)
      else if trim (prompt st) = [] then (st, [PreventDefault], Fulfilled_Undefined)
      else if maxMessagesPerSession \<le> length (messages st) then
        (st, [PreventDefault, Alert ''Chat limit reached. Please start a new chat.''],
         Fulfilled_Undefined)
      else
        (case try_block env (prompt st) (messages (pending env st)) (pending env st) of
           (Inl e, st', sent) \<Rightarrow>
             (st'\<lparr>isLoading := False\<rparr>, PreventDefault # sent @ [ConsoleError ''Error:''],
              Fulfilled_Undefined)
         | (Inr u, st', sent) \<Rightarrow>
             (st'\<lparr>isLoading := False\<rparr>, PreventDefault # sent, Fulfilled_Undefined)))"

text \<open>A call is accepted when it passes the three guards of lines 70 to 78.\<close>

definition accepted :: "app_state \<Rightarrow> bool" where
  "accepted st =
     (truthy (user st) \<and> trim (prompt st) \<noteq> [] \<and> length (messages st) < maxMessagesPerSession)"

text \<open>
  A sequence of submissions: for each, the user types \<open>p\<close> into the form
  (\<^verbatim>\<open>setPrompt\<close>) and submits it, and the call ends before the next one starts.
  The state after the last one.
\<close>

fun submits :: "(string \<times> submit_env) list \<Rightarrow> app_state \<Rightarrow> app_state" where
  "submits [] st = st"
| "submits ((p, env) # rest) st = submits rest (fst (handleSubmit env (st\<lparr>prompt := p\<rparr>)))"

text \<open>Every call of the sequence is accepted.\<close>

fun all_accepted :: "(string \<times> submit_env) list \<Rightarrow> app_state \<Rightarrow> bool" where
  "all_accepted [] st = True"
| "all_accepted ((p, env) # rest) st =
     (accepted (st\<lparr>prompt := p\<rparr>) \<and>
      all_accepted rest (fst (handleSubmit env (st\<lparr>prompt := p\<rparr>))))"

text \<open>How many calls of the sequence are accepted.\<close>

fun count_accepted :: "(string \<times> submit_env) list \<Rightarrow> app_state \<Rightarrow> nat" where
  "count_accepted [] st = 0"
| "count_accepted ((p, env) # rest) st =
     (if accepted (st\<lparr>prompt := p\<rparr>) then 1 else 0) +
     count_accepted rest (fst (handleSubmit env (st\<lparr>prompt := p\<rparr>)))"

text \<open>The buffer lengths seen along the sequence: while each call is pending, and after it.\<close>

fun pending_lengths :: "(string \<times> submit_env) list \<Rightarrow> app_state \<Rightarrow> nat list" where
  "pending_lengths [] st = []"
| "pending_lengths ((p, env) # rest) st =
     length (messages (pending env (st\<lparr>prompt := p\<rparr>))) #
     pending_lengths rest (fst (handleSubmit env (st\<lparr>prompt := p\<rparr>)))"

fun completed_lengths :: "(string \<times> submit_env) list \<Rightarrow> app_state \<Rightarrow> nat list" where
  "completed_lengths [] st = []"
| "completed_lengths ((p, env) # rest) st =
     length (messages (fst (handleSubmit env (st\<lparr>prompt := p\<rparr>)))) #
     completed_lengths rest (fst (handleSubmit env (st\<lparr>prompt := p\<rparr>)))"

text \<open>The generation request is answered with a reply the handler appends.\<close>

definition answered :: "submit_env \<Rightarrow> bool" where
  "answered env =
     (case generation env of
        Body data \<Rightarrow>
          has_candidates env data = Inr True \<and>
          (case botReply data of Inl e \<Rightarrow> False | Inr reply \<Rightarrow> True)
      | _ \<Rightarrow> False)"

subsection \<open>handleNewChat\<close>

text \<open>\<^verbatim>\<open>Array.prototype.findIndex\<close>: the first index whose element satisfies \<open>P\<close>, or -1.\<close>

fun findIndex :: "('a \<Rightarrow> bool) \<Rightarrow> 'a list \<Rightarrow> int" where
  "findIndex P [] = - 1"
| "findIndex P (x # xs) =
     (if P x then 0 else (let i = findIndex P xs in if i = - 1 then - 1 else i + 1))"

text \<open>
  The write to local storage on line 62 either succeeds or throws (the storage is full
  or unavailable).
\<close>

datatype storage_result = Written | WriteThrows

text \<open>
  Lines 53 to 66. \<^verbatim>\<open>JSON.stringify\<close> is the language's and is the parameter \<open>stringify\<close>;
  what is written to local storage is recorded before its serialisation. Line 62 is
  not guarded: when the write throws, \<^verbatim>\<open>setChatSessions\<close> has been called, line 65 is
  not reached and the exception leaves the handler. The result is the state left, the
  effects, and how the call ends.
\<close>

definition handleNewChat ::
  "(message list \<Rightarrow> 'k) \<Rightarrow> storage_result \<Rightarrow> app_state \<Rightarrow> app_state \<times> effect list \<times> (exn + unit)" where
  "handleNewChat stringify storage st =
     (if 0 < length (messages st) then
        (let existingSessionIndex =
               findIndex (\<lambda>session. stringify session = stringify (messages st)) (chatSessions st)
         in if existingSessionIndex = - 1 then
              (let updatedSessions = chatSessions st @ [messages st]
               in case storage of
                    WriteThrows \<Rightarrow>
                      (st\<lparr>chatSessions := updatedSessions\<rparr>, [], Inl QuotaExceededError)
                  | Written \<Rightarrow>
                      (st\<lparr>chatSessions := updatedSessions, messages := []\<rparr>,
                       [StorageSet ''chatSessions'' updatedSessions], Inr ()))
            else (st\<lparr>messages := []\<rparr>, [], Inr ()))
      else (st\<lparr>messages := []\<rparr>, [], Inr ()))"

subsection \<open>fetchChatHistory\<close>

text \<open>Lines 40 to 43, the callback of \<^verbatim>\<open>data.map\<close> on one record.\<close>

definition expand :: "jsval \<Rightarrow> exn + message list" where
  "expand chat =
     and_then (js_prop chat ''prompt'') (\<lambda>p.
     and_then (js_prop chat ''timestamp'') (\<lambda>t.
     and_then (js_prop chat ''response'') (\<lambda>r.
     and_then (js_prop chat ''timestamp'') (\<lambda>t'.
       Inr [\<lparr>text' = p, isUser = True, timestamp = t\<rparr>,
            \<lparr>text' = r, isUser = False, timestamp = t'\<rparr>]))))"

text \<open>
  \<^verbatim>\<open>data.map(f)\<close>: on an array the callback runs on each element in order and the first
  exception leaves the loop; any other value has no callable \<^verbatim>\<open>map\<close>, a TypeError.
\<close>

fun map_throwing :: "('a \<Rightarrow> exn + 'b) \<Rightarrow> 'a list \<Rightarrow> exn + 'b list" where
  "map_throwing f [] = Inr []"
| "map_throwing f (x # xs) =
     and_then (f x) (\<lambda>y. and_then (map_throwing f xs) (\<lambda>ys. Inr (y # ys)))"

definition js_map :: "(jsval \<Rightarrow> exn + 'b) \<Rightarrow> jsval \<Rightarrow> exn + 'b list" where
  "js_map f data = (case data of JArr xs \<Rightarrow> map_throwing f xs | _ \<Rightarrow> Inl TypeError)"

text \<open>Lines 34 to 48; \<^verbatim>\<open>history.flat()\<close> is \<open>concat\<close>.\<close>

definition fetchChatHistory :: "fetch_result \<Rightarrow> app_state \<Rightarrow> app_state \<times> effect list" where
  "fetchChatHistory res st =
     (case res of
        FetchRejected \<Rightarrow> (st, [FetchHistory, ConsoleError ''Error fetching chat history:''])
      | JsonRejected \<Rightarrow> (st, [FetchHistory, ConsoleError ''Error fetching chat history:''])
      | Body data \<Rightarrow>
          (case js_map expand data of
             Inl e \<Rightarrow> (st, [FetchHistory, ConsoleError ''Error fetching chat history:''])
           | Inr history \<Rightarrow> (st\<lparr>messages := concat history\<rparr>, [FetchHistory])))"

text \<open>Lines 31 to 51, the effect that runs when \<^verbatim>\<open>user\<close> changes.\<close>

definition history_effect :: "fetch_result \<Rightarrow> app_state \<Rightarrow> app_state \<times> effect list" where
  "history_effect res st = (if \<not> truthy (user st) then (st, []) else fetchChatHistory res st)"

section \<open>Vocabulary of the properties\<close>

definition is_save :: "effect \<Rightarrow> bool" where
  "is_save e = (case e of FetchSave body \<Rightarrow> True | _ \<Rightarrow> False)"

text \<open>
  A malformed generation response: reading \<^verbatim>\<open>data.candidates\<close> throws or gives
  \<^verbatim>\<open>undefined\<close> (missing) or \<^verbatim>\<open>null\<close>, or it is the empty array.
\<close>

definition candidates_missing_or_empty :: "jsval \<Rightarrow> bool" where
  "candidates_missing_or_empty data =
     (case js_prop data ''candidates'' of
        Inl e \<Rightarrow> True
      | Inr c \<Rightarrow> c = JUndefined \<or> c = JNull \<or> c = JArr [])"

text \<open>
  A candidate \<open>c\<close> without the path \<^verbatim>\<open>content.parts[0]\<close>: reading \<^verbatim>\<open>c.content.parts[0]\<close>
  throws, or gives \<^verbatim>\<open>undefined\<close> or \<^verbatim>\<open>null\<close>.
\<close>

definition lacks_part :: "jsval \<Rightarrow> bool" where
  "lacks_part c =
     (case and_then (js_prop c ''content'') (\<lambda>content.
           and_then (js_prop content ''parts'') js_first) of
        Inl e \<Rightarrow> True
      | Inr part \<Rightarrow> part = JUndefined \<or> part = JNull)"

text \<open>
  A record of the remote history store, \<^verbatim>\<open>{prompt, response, timestamp}\<close>, the object
  it arrives as, and its expansion in the words of the specification: the
  user Message with the prompt, then the bot Message with the response, both with the
  record's timestamp.
\<close>

record chat_record =
  rec_prompt :: jsval
  rec_response :: jsval
  rec_timestamp :: jsval

definition record_value :: "chat_record \<Rightarrow> jsval" where
  "record_value r =
     JObj [(''prompt'', rec_prompt r), (''response'', rec_response r),
           (''timestamp'', rec_timestamp r)]"

definition spec_expand :: "chat_record \<Rightarrow> message list" where
  "spec_expand r =
     [\<lparr>text' = rec_prompt r, isUser = True, timestamp = rec_timestamp r\<rparr>,
      \<lparr>text' = rec_response r, isUser = False, timestamp = rec_timestamp r\<rparr>]"

text \<open>
  A successful generation response in the words of the specification (section 6): it
  carries \<^verbatim>\<open>{candidates: [{content: {parts: [{text: replyText}]}}, ...], ...}\<close>. The
  reply text of such a response, read off its shape without the handler's reads; it is
  \<open>None\<close> when the response has another shape.
\<close>

definition spec_reply :: "jsval \<Rightarrow> jsval option" where
  "spec_reply data =
     (case data of
        JObj props \<Rightarrow>
          (case map_of props ''candidates'' of
             Some (JArr (JObj candidate # others)) \<Rightarrow>
               (case map_of candidate ''content'' of
                  Some (JObj content) \<Rightarrow>
                    (case map_of content ''parts'' of
                       Some (JArr (JObj part # parts)) \<Rightarrow> map_of part ''text''
                     | _ \<Rightarrow> None)
                | _ \<Rightarrow> None)
           | _ \<Rightarrow> None)
      | _ \<Rightarrow> None)"

section \<open>Sample inputs\<close>

definition sample_env :: "fetch_result \<Rightarrow> save_result \<Rightarrow> submit_env" where
  "sample_env g s =
     \<lparr>now_user = 1000, now_bot = 2000, apiKey = ''key'', generation = g, persistence = s,
      to_number_gt_zero = (\<lambda>v. False)\<rparr>"

definition signed_in :: "string \<Rightarrow> message list \<Rightarrow> message list list \<Rightarrow> app_state" where
  "signed_in p ms archive =
     \<lparr>prompt = p, messages = ms, chatSessions = archive, isLoading = False,
      user = JObj [(''name'', JStr ''ada'')]\<rparr>"

definition signed_out :: "string \<Rightarrow> message list \<Rightarrow> app_state" where
  "signed_out p ms =
     \<lparr>prompt = p, messages = ms, chatSessions = [], isLoading = False, user = JNull\<rparr>"

definition user_turn :: "string \<Rightarrow> message" where
  "user_turn s = \<lparr>text' = JStr s, isUser = True, timestamp = JDate 500\<rparr>"

definition bot_turn :: "string \<Rightarrow> message" where
  "bot_turn s = \<lparr>text' = JStr s, isUser = False, timestamp = JDate 600\<rparr>"

text \<open>The response \<^verbatim>\<open>{candidates: [{content: {parts: [{text: "hi"}]}}]}\<close>.\<close>

definition reply_hi :: jsval where
  "reply_hi =
     JObj [(''candidates'',
       JArr [JObj [(''content'', JObj [(''parts'', JArr [JObj [(''text'', JStr ''hi'')]])])]])]"

text \<open>The response \<^verbatim>\<open>{candidates: []}\<close>.\<close>

definition reply_empty :: jsval where
  "reply_empty = JObj [(''candidates'', JArr [])]"

text \<open>The response \<^verbatim>\<open>{candidates: [{content: {parts: []}}]}\<close>.\<close>

definition reply_no_part :: jsval where
  "reply_no_part = JObj [(''candidates'', JArr [JObj [(''content'', JObj [(''parts'', JArr [])])]])]"

text \<open>The response \<^verbatim>\<open>{candidates: [{content: {parts: [{}]}}]}\<close>.\<close>

definition reply_no_text :: jsval where
  "reply_no_text =
     JObj [(''candidates'', JArr [JObj [(''content'', JObj [(''parts'', JArr [JObj []])])]])]"


section \<open>Auxiliary facts\<close>

text \<open>The definitions unfolded to evaluate the handlers on sample inputs.\<close>

lemmas sample_defs =
  sample_env_def signed_in_def signed_out_def user_turn_def bot_turn_def reply_hi_def reply_empty_def
  reply_no_part_def reply_no_text_def maxMessagesPerSession_def trim_def is_ws_def
  accepted_def

lemmas handler_defs =
  handleSubmit_def try_block_def pending_def has_candidates_def botReply_def and_then_def
  generate_body_def save_body_def answered_def


subsection \<open>Facts about handleSubmit\<close>

lemma handleSubmit_accepted:
  "accepted st \<Longrightarrow>
     handleSubmit env st =
       (case try_block env (prompt st) (messages (pending env st)) (pending env st) of
           (Inl e, st', sent) \<Rightarrow>
             (st'\<lparr>isLoading := False\<rparr>, PreventDefault # sent @ [ConsoleError ''Error:''],
              Fulfilled_Undefined)
         | (Inr u, st', sent) \<Rightarrow>
             (st'\<lparr>isLoading := False\<rparr>, PreventDefault # sent, Fulfilled_Undefined))"
  by (simp add: handleSubmit_def accepted_def)

lemma handleSubmit_rejected_state: "\<not> accepted s \<Longrightarrow> fst (handleSubmit env s) = s"
  by (auto simp: handleSubmit_def accepted_def)

lemma length_filter_limit:
  "length (filter isUser ms) = maxMessagesPerSession \<Longrightarrow> maxMessagesPerSession \<le> length ms"
  using length_filter_le [of isUser ms] by simp

lemma length_pending: "length (messages (pending env s)) = Suc (length (messages s))"
  by (simp add: pending_def)

lemma try_block_length:
  "try_block env p (messages s) s = (r, s', sent) \<Longrightarrow>
     length (messages s') = length (messages s) \<or> length (messages s') = Suc (length (messages s))"
  by (auto simp: try_block_def Let_def
      split: fetch_result.splits sum.splits if_splits save_result.splits)

lemma length_completed:
  assumes "accepted s"
  shows "length (messages (fst (handleSubmit env s))) = length (messages s) + 1 \<or>
         length (messages (fst (handleSubmit env s))) = length (messages s) + 2"
proof -
  obtain r s' sent where tb:
    "try_block env (prompt s) (messages (pending env s)) (pending env s) = (r, s', sent)"
    by (cases "try_block env (prompt s) (messages (pending env s)) (pending env s)") auto
  from try_block_length [OF tb] have
    "length (messages s') = Suc (length (messages s)) \<or> length (messages s') = Suc (Suc (length (messages s)))"
    by (simp add: length_pending)
  then show ?thesis
    using tb assms by (cases r) (auto simp: handleSubmit_accepted)
qed

lemma length_answered:
  assumes "accepted s" and "answered env"
  shows "length (messages (fst (handleSubmit env s))) = length (messages s) + 2"
proof -
  from assms(2) obtain data r where "generation env = Body data"
    "has_candidates env data = Inr True" "botReply data = Inr r"
    by (auto simp: answered_def split: fetch_result.splits sum.splits)
  then show ?thesis
    using assms(1)
    by (cases "persistence env") (simp_all add: handleSubmit_accepted try_block_def pending_def)
qed

lemma has_candidates_missing:
  "candidates_missing_or_empty data \<Longrightarrow>
     has_candidates env data = Inr False \<or> (\<exists>e. has_candidates env data = Inl e)"
  by (auto simp: candidates_missing_or_empty_def has_candidates_def and_then_def split: sum.splits)

lemma try_block_unanswered:
  assumes "generation env = FetchRejected \<or> generation env = JsonRejected \<or>
         (\<exists>data. generation env = Body data \<and> candidates_missing_or_empty data)"
  shows "try_block env p ms s =
           (Inr (), s, [FetchGenerate (apiKey env) (generate_body p),
                        ConsoleError ''Unexpected API response:'']) \<or>
         (\<exists>e. try_block env p ms s = (Inl e, s, [FetchGenerate (apiKey env) (generate_body p)]))"
proof -
  consider "generation env = FetchRejected" | "generation env = JsonRejected"
    | data where "generation env = Body data" "candidates_missing_or_empty data"
    using assms by blast
  then show ?thesis
  proof cases
    case 1
    then show ?thesis by (simp add: try_block_def)
  next
    case 2
    then show ?thesis by (simp add: try_block_def)
  next
    case 3
    from has_candidates_missing [OF 3(2), of env] show ?thesis
      using 3(1) by (auto simp: try_block_def)
  qed
qed

lemma js_prop_throws: "js_prop v k = Inl e \<Longrightarrow> e = TypeError \<and> (v = JUndefined \<or> v = JNull)"
  by (cases v) auto

lemma js_first_throws: "js_first v = Inl e \<Longrightarrow> e = TypeError \<and> (v = JUndefined \<or> v = JNull)"
  by (cases v) auto

lemma botReply_lacks_part:
  "js_prop data ''candidates'' = Inr (JArr (c # cs)) \<Longrightarrow> lacks_part c \<Longrightarrow>
     botReply data = Inl TypeError"
  by (auto simp: botReply_def lacks_part_def and_then_def split: sum.splits
      dest: js_prop_throws js_first_throws)

lemma bounds_run:
  "all_accepted steps st \<Longrightarrow>
     (\<forall>n \<in> set (pending_lengths steps st). n \<le> maxMessagesPerSession) \<and>
     (\<forall>n \<in> set (completed_lengths steps st). n \<le> maxMessagesPerSession + 1)"
proof (induction steps arbitrary: st)
  case Nil
  then show ?case by simp
next
  case (Cons a steps)
  obtain p env where a: "a = (p, env)" by (cases a)
  let ?s = "st\<lparr>prompt := p\<rparr>"
  from Cons.prems a have acc: "accepted ?s" and rest: "all_accepted steps (fst (handleSubmit env ?s))"
    by simp_all
  from acc have lt: "length (messages ?s) < maxMessagesPerSession" by (simp add: accepted_def)
  have p: "length (messages (pending env ?s)) \<le> maxMessagesPerSession"
    using lt by (simp add: length_pending)
  have c: "length (messages (fst (handleSubmit env ?s))) \<le> maxMessagesPerSession + 1"
    using length_completed [OF acc, of env] lt by arith
  from Cons.IH [OF rest] p c a show ?case by simp
qed

lemma parity_run:
  "all_accepted steps st \<Longrightarrow> even (length (messages st)) \<Longrightarrow>
   (\<forall>step \<in> set steps. answered (snd step)) \<Longrightarrow>
     (\<forall>n \<in> set (pending_lengths steps st). odd n) \<and>
     (\<forall>n \<in> set (completed_lengths steps st). even n)"
proof (induction steps arbitrary: st)
  case Nil
  then show ?case by simp
next
  case (Cons a steps)
  obtain p env where a: "a = (p, env)" by (cases a)
  let ?s = "st\<lparr>prompt := p\<rparr>"
  from Cons.prems a have acc: "accepted ?s" and rest: "all_accepted steps (fst (handleSubmit env ?s))"
    and ev: "even (length (messages ?s))" and ans: "answered env"
    and ansr: "\<forall>step \<in> set steps. answered (snd step)"
    by simp_all
  have p: "odd (length (messages (pending env ?s)))"
    using ev by (simp add: length_pending)
  have c: "even (length (messages (fst (handleSubmit env ?s))))"
    using length_answered [OF acc ans] ev by simp
  from Cons.IH [OF rest c ansr] p c a show ?case by simp
qed

lemma count_answered:
  "(\<forall>step \<in> set steps. answered (snd step)) \<Longrightarrow>
     2 * count_accepted steps st \<le> (maxMessagesPerSession + 1) - length (messages st)"
proof (induction steps arbitrary: st)
  case Nil
  then show ?case by simp
next
  case (Cons a steps)
  obtain p env where a: "a = (p, env)" by (cases a)
  let ?s = "st\<lparr>prompt := p\<rparr>"
  let ?t = "fst (handleSubmit env ?s)"
  from Cons.prems a have ans: "answered env"
    and ansr: "\<forall>step \<in> set steps. answered (snd step)" by simp_all
  show ?case
  proof (cases "accepted ?s")
    case True
    then have lt: "length (messages st) < maxMessagesPerSession" by (simp add: accepted_def)
    have len: "length (messages ?t) = length (messages st) + 2"
      using length_answered [OF True ans] by simp
    from Cons.IH [OF ansr, of ?t] len lt True a show ?thesis by simp
  next
    case False
    then have same: "?t = ?s" by (rule handleSubmit_rejected_state)
    from Cons.IH [OF ansr, of ?s] same False a show ?thesis by simp
  qed
qed

text \<open>A run of submissions whose generation requests are all answered.\<close>

lemma answered_run:
  "answered env \<Longrightarrow> truthy (user st) \<Longrightarrow> trim p \<noteq> [] \<Longrightarrow>
   length (messages st) + 2 * n \<le> maxMessagesPerSession + 1 \<Longrightarrow>
     all_accepted (replicate n (p, env)) st \<and>
     count_accepted (replicate n (p, env)) st = n \<and>
     length (messages (submits (replicate n (p, env)) st)) = length (messages st) + 2 * n"
proof (induction n arbitrary: st)
  case 0
  then show ?case by simp
next
  case (Suc n)
  let ?s = "st\<lparr>prompt := p\<rparr>"
  let ?t = "fst (handleSubmit env ?s)"
  have acc: "accepted ?s"
    using Suc.prems by (simp add: accepted_def)
  have len: "length (messages ?t) = length (messages st) + 2"
    using length_answered [OF acc Suc.prems(1)] by simp
  have "user ?t = user ?s"
    using acc
    by (auto simp: handleSubmit_accepted try_block_def pending_def Let_def
        split: fetch_result.splits sum.splits save_result.splits)
  then have u: "truthy (user ?t)" using Suc.prems(2) by simp
  have l: "length (messages ?t) + 2 * n \<le> maxMessagesPerSession + 1"
    using Suc.prems(4) len by simp
  from Suc.IH [OF Suc.prems(1) u Suc.prems(3) l] acc len
  show ?case by simp
qed

lemma spec_reply_read:
  assumes "spec_reply data = Some r"
  shows "has_candidates env data = Inr True \<and> botReply data = Inr r"
proof -
  from assms obtain props candidate others content part parts where
    d: "data = JObj props"
    and c: "map_of props ''candidates'' = Some (JArr (JObj candidate # others))"
    and o: "map_of candidate ''content'' = Some (JObj content)"
    and q: "map_of content ''parts'' = Some (JArr (JObj part # parts))"
    and t: "map_of part ''text'' = Some r"
    by (auto simp: spec_reply_def split: jsval.splits option.splits list.splits)
  show ?thesis
    by (simp add: has_candidates_def botReply_def and_then_def d c o q t)
qed

text \<open>A run of submissions whose generation requests are all rejected.\<close>

lemma unanswered_step:
  "accepted s \<Longrightarrow> generation env = FetchRejected \<Longrightarrow>
     fst (handleSubmit env s) =
       s\<lparr>messages := messages s @
            [\<lparr>text' = JStr (prompt s), isUser = True, timestamp = JDate (now_user env)\<rparr>],
         prompt := [], isLoading := False\<rparr>"
  by (simp add: handleSubmit_accepted try_block_def pending_def)

lemma unanswered_run:
  "generation env = FetchRejected \<Longrightarrow> truthy (user st) \<Longrightarrow> trim p \<noteq> [] \<Longrightarrow>
   length (messages st) + n \<le> maxMessagesPerSession \<Longrightarrow>
     all_accepted (replicate n (p, env)) st \<and>
     count_accepted (replicate n (p, env)) st = n \<and>
     length (messages (submits (replicate n (p, env)) st)) = length (messages st) + n \<and>
     length (filter isUser (messages (submits (replicate n (p, env)) st))) =
       length (filter isUser (messages st)) + n"
proof (induction n arbitrary: st)
  case 0
  then show ?case by simp
next
  case (Suc n)
  let ?s = "st\<lparr>prompt := p\<rparr>"
  let ?t = "fst (handleSubmit env ?s)"
  have acc: "accepted ?s"
    using Suc.prems by (simp add: accepted_def)
  have t: "?t = ?s\<lparr>messages := messages ?s @
            [\<lparr>text' = JStr (prompt ?s), isUser = True, timestamp = JDate (now_user env)\<rparr>],
         prompt := [], isLoading := False\<rparr>"
    using acc Suc.prems(1) by (rule unanswered_step)
  have u: "truthy (user ?t)" using Suc.prems(2) by (simp add: t)
  have l: "length (messages ?t) + n \<le> maxMessagesPerSession"
    using Suc.prems(4) by (simp add: t)
  from Suc.IH [OF Suc.prems(1) u Suc.prems(3) l] acc
  show ?case by (simp add: t)
qed

subsection \<open>Facts about handleNewChat and fetchChatHistory\<close>

lemma findIndex_ge: "- 1 \<le> findIndex P xs"
  by (induction xs) (auto simp: Let_def)

lemma findIndex_none: "(findIndex P xs = - 1) = (\<forall>x \<in> set xs. \<not> P x)"
proof (induction xs)
  case Nil
  then show ?case by simp
next
  case (Cons x xs)
  have "findIndex P xs + 1 \<noteq> - 1" using findIndex_ge [of P xs] by arith
  with Cons show ?case by (auto simp: Let_def)
qed

lemma handleNewChat_empty:
  "messages st = [] \<Longrightarrow> handleNewChat stringify storage st = (st, [], Inr ())"
  by (simp add: handleNewChat_def)

lemma handleNewChat_messages:
  "messages (fst (handleNewChat stringify storage st)) =
     (if storage = WriteThrows \<and> messages st \<noteq> [] \<and>
         (\<forall>s \<in> set (chatSessions st). stringify s \<noteq> stringify (messages st))
      then messages st else [])"
  by (cases storage) (auto simp: handleNewChat_def Let_def findIndex_none)

lemma handleNewChat_returns:
  "snd (snd (handleNewChat stringify storage st)) =
     (if storage = WriteThrows \<and> messages st \<noteq> [] \<and>
         (\<forall>s \<in> set (chatSessions st). stringify s \<noteq> stringify (messages st))
      then Inl QuotaExceededError else Inr ())"
  by (cases storage) (auto simp: handleNewChat_def Let_def findIndex_none)

lemma handleNewChat_archive:
  "chatSessions (fst (handleNewChat stringify storage st)) =
     (if messages st \<noteq> [] \<and> (\<forall>s \<in> set (chatSessions st). stringify s \<noteq> stringify (messages st))
      then chatSessions st @ [messages st] else chatSessions st)"
  by (cases storage) (auto simp: handleNewChat_def Let_def findIndex_none)

lemma handleNewChat_no_append:
  "messages s = [] \<or> (\<exists>x \<in> set (chatSessions s). stringify x = stringify (messages s)) \<Longrightarrow>
     chatSessions (fst (handleNewChat stringify storage s)) = chatSessions s"
  by (auto simp: handleNewChat_archive)

lemma handleNewChat_again:
  "chatSessions (fst (handleNewChat stringify storage'
       ((fst (handleNewChat stringify storage st))\<lparr>messages := messages st\<rparr>))) =
     chatSessions (fst (handleNewChat stringify storage st))"
proof -
  let ?t = "fst (handleNewChat stringify storage st)"
  let ?u = "?t\<lparr>messages := messages st\<rparr>"
  have "messages ?u = [] \<or>
        (\<exists>x \<in> set (chatSessions ?u). stringify x = stringify (messages ?u))"
    by (auto simp: handleNewChat_archive)
  then have "chatSessions (fst (handleNewChat stringify storage' ?u)) = chatSessions ?u"
    by (rule handleNewChat_no_append)
  then show ?thesis by simp
qed

lemma handleNewChat_twice:
  "chatSessions (fst (handleNewChat stringify storage' (fst (handleNewChat stringify storage st)))) =
     chatSessions (fst (handleNewChat stringify storage st))"
proof (rule handleNewChat_no_append)
  let ?t = "fst (handleNewChat stringify storage st)"
  show "messages ?t = [] \<or>
        (\<exists>x \<in> set (chatSessions ?t). stringify x = stringify (messages ?t))"
    by (auto simp: handleNewChat_archive handleNewChat_messages)
qed

lemma expand_record: "expand (record_value r) = Inr (spec_expand r)"
  by (simp add: expand_def record_value_def spec_expand_def and_then_def)

section \<open>The claims\<close>

subsection \<open>The limit check\<close>

text \<open>
  Claim C1, amended. When the buffer holds \<open>maxMessagesPerSession\<close> (20) user-authored
  Messages, a call of \<^verbatim>\<open>handleSubmit\<close> leaves the whole state, hence the buffer, as it
  was and issues no network request; when the identity is present and the prompt is not
  blank, so that the call reaches the limit check, what it does is the limit notice.
  Whatever the state, a call changes the buffer or issues a network request only when
  the buffer length is strictly below \<open>maxMessagesPerSession\<close>.
\<close>

theorem submit_rejected_at_limit:
  assumes "length (filter isUser (messages st)) = maxMessagesPerSession"
  shows "fst (handleSubmit env st) = st \<and>
         list_all (\<lambda>e. \<not> is_network e) (fst (snd (handleSubmit env st))) \<and>
         (truthy (user st) \<and> trim (prompt st) \<noteq> [] \<longrightarrow>
            fst (snd (handleSubmit env st)) =
              [PreventDefault, Alert ''Chat limit reached. Please start a new chat.'']) \<and>
         (\<forall>s. messages (fst (handleSubmit env s)) \<noteq> messages s \<or>
               \<not> list_all (\<lambda>e. \<not> is_network e) (fst (snd (handleSubmit env s))) \<longrightarrow>
               length (messages s) < maxMessagesPerSession)"
proof -
  have big: "maxMessagesPerSession \<le> length (messages st)"
    using assms by (rule length_filter_limit)
  have a: "fst (handleSubmit env st) = st"
    using big by (simp add: handleSubmit_def)
  have b: "list_all (\<lambda>e. \<not> is_network e) (fst (snd (handleSubmit env st)))"
    using big by (simp add: handleSubmit_def)
  have c: "truthy (user st) \<and> trim (prompt st) \<noteq> [] \<longrightarrow>
            fst (snd (handleSubmit env st)) =
              [PreventDefault, Alert ''Chat limit reached. Please start a new chat.'']"
    using big by (simp add: handleSubmit_def)
  have d: "length (messages s) < maxMessagesPerSession"
    if "messages (fst (handleSubmit env s)) \<noteq> messages s \<or>
               \<not> list_all (\<lambda>e. \<not> is_network e) (fst (snd (handleSubmit env s)))" for s
  proof (rule ccontr)
    assume "\<not> length (messages s) < maxMessagesPerSession"
    then have "maxMessagesPerSession \<le> length (messages s)" by simp
    then have "messages (fst (handleSubmit env s)) = messages s \<and>
       list_all (\<lambda>e. \<not> is_network e) (fst (snd (handleSubmit env s)))"
      by (simp add: handleSubmit_def)
    with that show False by blast
  qed
  from a b c d show ?thesis by blast
qed

text \<open>The property at a sample input.\<close>

theorem submit_rejected_at_limit_witness:
  "length (filter isUser (messages (signed_in ''hello'' (replicate 20 (user_turn ''q'')) []))) =
     maxMessagesPerSession \<and>
   handleSubmit (sample_env (Body reply_hi) SaveResolved)
       (signed_in ''hello'' (replicate 20 (user_turn ''q'')) []) =
     (signed_in ''hello'' (replicate 20 (user_turn ''q'')) [],
      [PreventDefault, Alert ''Chat limit reached. Please start a new chat.''],
      Fulfilled_Undefined)"
proof -
  have h: "length (filter isUser (messages (signed_in ''hello'' (replicate 20 (user_turn ''q'')) []))) =
     maxMessagesPerSession"
    by (simp add: sample_defs)
  have r: "snd (snd (handleSubmit (sample_env (Body reply_hi) SaveResolved)
       (signed_in ''hello'' (replicate 20 (user_turn ''q'')) []))) = Fulfilled_Undefined"
    by (simp add: sample_defs handleSubmit_def)
  have u: "truthy (user (signed_in ''hello'' (replicate 20 (user_turn ''q'')) [])) \<and>
           trim (prompt (signed_in ''hello'' (replicate 20 (user_turn ''q'')) [])) \<noteq> []"
    by (simp add: sample_defs)
  from submit_rejected_at_limit [OF h, of "sample_env (Body reply_hi) SaveResolved"] u r h
  show ?thesis by (metis prod.collapse)
qed

text \<open>
  Claim C1 as stated fails: with twenty user Messages in the buffer and a blank prompt,
  the call returns on line 73, before the limit check, and produces no notice.
\<close>

theorem blank_prompt_at_limit_gives_no_notice:
  "length (filter isUser (messages (signed_in ''  '' (replicate 20 (user_turn ''q'')) []))) =
     maxMessagesPerSession \<and>
   handleSubmit (sample_env (Body reply_hi) SaveResolved)
       (signed_in ''  '' (replicate 20 (user_turn ''q'')) []) =
     (signed_in ''  '' (replicate 20 (user_turn ''q'')) [], [PreventDefault], Fulfilled_Undefined)"
  by (simp add: sample_defs handleSubmit_def)

subsection \<open>Parity and bound of the buffer length\<close>

text \<open>
  Claim C2, amended. Along every sequence of accepted submissions the buffer length,
  while a call is pending and after it, never exceeds \<open>2 * maxMessagesPerSession\<close>.
  When the sequence starts from a buffer of even length and every generation request
  is answered with a reply, the length is odd while each call is pending and even
  after it. (An accepted submission whose request is not answered leaves its user
  Message alone in the buffer, and the parity of later lengths changes.)
\<close>

theorem buffer_parity_and_bound:
  assumes "all_accepted steps st"
  shows "(\<forall>n \<in> set (pending_lengths steps st) \<union> set (completed_lengths steps st).
            n \<le> 2 * maxMessagesPerSession) \<and>
         (even (length (messages st)) \<and> (\<forall>step \<in> set steps. answered (snd step)) \<longrightarrow>
            (\<forall>n \<in> set (pending_lengths steps st). odd n) \<and>
            (\<forall>n \<in> set (completed_lengths steps st). even n))"
proof -
  have "\<forall>n \<in> set (pending_lengths steps st) \<union> set (completed_lengths steps st).
            n \<le> 2 * maxMessagesPerSession"
    using bounds_run [OF assms] by (auto simp: maxMessagesPerSession_def)
  then show ?thesis
    using parity_run [OF assms] by blast
qed

text \<open>The property at a sample input.\<close>

theorem buffer_parity_and_bound_witness:
  "all_accepted [(''a'', sample_env (Body reply_hi) SaveResolved), (''b'', sample_env (Body reply_hi) SaveRejected)] (signed_in [] [] []) \<and>
   answered (sample_env (Body reply_hi) SaveResolved) \<and>
   answered (sample_env (Body reply_hi) SaveRejected) \<and>
   pending_lengths [(''a'', sample_env (Body reply_hi) SaveResolved), (''b'', sample_env (Body reply_hi) SaveRejected)] (signed_in [] [] []) = [1, 3] \<and>
   completed_lengths [(''a'', sample_env (Body reply_hi) SaveResolved), (''b'', sample_env (Body reply_hi) SaveRejected)] (signed_in [] [] []) = [2, 4]"
proof -
  let ?steps = "[(''a'', sample_env (Body reply_hi) SaveResolved), (''b'', sample_env (Body reply_hi) SaveRejected)]"
  have h: "all_accepted ?steps (signed_in [] [] [])"
    by (simp add: sample_defs handler_defs)
  have a: "answered (sample_env (Body reply_hi) SaveResolved)"
          "answered (sample_env (Body reply_hi) SaveRejected)"
    by (simp_all add: sample_defs handler_defs)
  have p: "pending_lengths ?steps (signed_in [] [] []) = [1, 3]"
    by (simp add: sample_defs handler_defs)
  have c: "completed_lengths ?steps (signed_in [] [] []) = [2, 4]"
    by (simp add: sample_defs handler_defs)
  from buffer_parity_and_bound [OF h] h a p c
  show ?thesis by simp
qed

text \<open>
  Claim C2 as stated fails: from the empty buffer, a first accepted submission whose
  generation request is rejected and a second one that is answered leave three
  Messages in the buffer, an odd length after a successful reply.
\<close>

theorem parity_fails_after_unanswered_turn:
  "all_accepted [(''a'', sample_env FetchRejected SaveResolved), (''b'', sample_env (Body reply_hi) SaveResolved)] (signed_in [] [] []) \<and>
   answered (sample_env (Body reply_hi) SaveResolved) \<and>
   completed_lengths [(''a'', sample_env FetchRejected SaveResolved), (''b'', sample_env (Body reply_hi) SaveResolved)] (signed_in [] [] []) = [1, 3] \<and>
   odd (length (messages (submits [(''a'', sample_env FetchRejected SaveResolved), (''b'', sample_env (Body reply_hi) SaveResolved)] (signed_in [] [] []))))"
  by (simp add: sample_defs handler_defs)

subsection \<open>The loading flag\<close>

text \<open>
  Claim C3. For every accepted call of \<^verbatim>\<open>handleSubmit\<close> and every outcome of the
  generation and save requests, the loading flag is true while the call is pending and
  false in the state the call leaves, and the call completes normally.
\<close>

theorem loading_flag_cleared: "accepted st \<Longrightarrow>
   isLoading (pending env st) \<and>
   \<not> isLoading (fst (handleSubmit env st)) \<and>
   snd (snd (handleSubmit env st)) = Fulfilled_Undefined"
  by (simp add: handleSubmit_accepted pending_def split: prod.splits sum.splits)

text \<open>The property at a sample input.\<close>

theorem loading_flag_cleared_witness:
  "accepted (signed_in ''hello'' [] []) \<and>
   isLoading (pending (sample_env FetchRejected SaveResolved) (signed_in ''hello'' [] [])) \<and>
   \<not> isLoading (fst (handleSubmit (sample_env FetchRejected SaveResolved) (signed_in ''hello'' [] [])))"
proof -
  have h: "accepted (signed_in ''hello'' [] [])"
    by (simp add: sample_defs)
  from loading_flag_cleared [OF h, of "sample_env FetchRejected SaveResolved"] h
  show ?thesis by simp
qed

subsection \<open>A successful reply\<close>

text \<open>
  Claim C4. For every accepted call whose generation request is answered with a response
  of the shape \<^verbatim>\<open>{candidates: [{content: {parts: [{text: r}]}}]}\<close>, the buffer gains the
  user Message followed by the bot Message with text \<open>r\<close>, and after the generation
  request, which carries the prompt, the save request carrying
  \<^verbatim>\<open>{prompt, response: r}\<close> is issued; if the save request is rejected, the only
  further effect is one logged error: the buffer keeps both Messages and the call
  completes with the loading flag cleared.
\<close>

theorem successful_reply_appended_and_saved:
  assumes "accepted st" and "generation env = Body data" and "spec_reply data = Some r"
  shows "messages (fst (handleSubmit env st)) =
           messages st @
             [\<lparr>text' = JStr (prompt st), isUser = True, timestamp = JDate (now_user env)\<rparr>,
              \<lparr>text' = r, isUser = False, timestamp = JDate (now_bot env)\<rparr>] \<and>
         fst (snd (handleSubmit env st)) =
           [PreventDefault,
            FetchGenerate (apiKey env)
              (JObj [(''contents'', JArr [JObj [(''parts'', JArr [JObj [(''text'', JStr (prompt st))]])]])]),
            FetchSave (JObj [(''prompt'', JStr (prompt st)), (''response'', r)])] @
           (if persistence env = SaveRejected then [ConsoleError ''Error:''] else []) \<and>
         snd (snd (handleSubmit env st)) = Fulfilled_Undefined \<and>
         \<not> isLoading (fst (handleSubmit env st))"
proof -
  from spec_reply_read [OF assms(3), of env]
  have c: "has_candidates env data = Inr True" and b: "botReply data = Inr r"
    by simp_all
  show ?thesis
    using assms(1,2) c b
    by (cases "persistence env")
      (simp_all add: handleSubmit_accepted try_block_def pending_def generate_body_def save_body_def)
qed

text \<open>The property at a sample input: the reply \<^verbatim>\<open>"hi"\<close>, and the save request rejected.\<close>

theorem successful_reply_appended_and_saved_witness:
  "accepted (signed_in ''hello'' [] []) \<and>
   spec_reply reply_hi = Some (JStr ''hi'') \<and>
   handleSubmit (sample_env (Body reply_hi) SaveRejected) (signed_in ''hello'' [] []) =
     (signed_in []
        [\<lparr>text' = JStr ''hello'', isUser = True, timestamp = JDate 1000\<rparr>,
         \<lparr>text' = JStr ''hi'', isUser = False, timestamp = JDate 2000\<rparr>] [],
      [PreventDefault,
       FetchGenerate ''key''
         (JObj [(''contents'', JArr [JObj [(''parts'', JArr [JObj [(''text'', JStr ''hello'')]])]])]),
       FetchSave (JObj [(''prompt'', JStr ''hello''), (''response'', JStr ''hi'')]),
       ConsoleError ''Error:''],
      Fulfilled_Undefined)"
proof -
  let ?env = "sample_env (Body reply_hi) SaveRejected"
  let ?st = "signed_in ''hello'' [] []"
  have h: "accepted ?st"
    by (simp add: sample_defs)
  have g: "generation ?env = Body reply_hi"
    by (simp add: sample_env_def)
  have r: "spec_reply reply_hi = Some (JStr ''hi'')"
    by (simp add: spec_reply_def reply_hi_def)
  have s: "fst (handleSubmit ?env ?st) =
     signed_in []
        [\<lparr>text' = JStr ''hello'', isUser = True, timestamp = JDate 1000\<rparr>,
         \<lparr>text' = JStr ''hi'', isUser = False, timestamp = JDate 2000\<rparr>] []"
    by (simp add: sample_defs handler_defs)
  from successful_reply_appended_and_saved [OF h g r] h r s
  show ?thesis by (simp add: sample_env_def signed_in_def prod_eq_iff)
qed

subsection \<open>A failed generation request\<close>

text \<open>
  Claim C5. For every accepted call whose generation request fails in transport (the
  request or the decoding of its body is rejected) or is answered with a body whose
  \<^verbatim>\<open>candidates\<close> is missing or empty, the buffer gains the user Message only, the
  effects are the generation request and one logged error, no save request is issued,
  the loading flag ends false and the call completes.
\<close>

theorem failed_generation_keeps_user_turn:
  assumes "accepted st"
    and "generation env = FetchRejected \<or> generation env = JsonRejected \<or>
         (\<exists>data. generation env = Body data \<and> candidates_missing_or_empty data)"
  shows "messages (fst (handleSubmit env st)) =
           messages st @
             [\<lparr>text' = JStr (prompt st), isUser = True, timestamp = JDate (now_user env)\<rparr>] \<and>
         (\<exists>label. fst (snd (handleSubmit env st)) =
           [PreventDefault, FetchGenerate (apiKey env) (generate_body (prompt st)),
            ConsoleError label]) \<and>
         list_all (\<lambda>e. \<not> is_save e) (fst (snd (handleSubmit env st))) \<and>
         \<not> isLoading (fst (handleSubmit env st)) \<and>
         snd (snd (handleSubmit env st)) = Fulfilled_Undefined"
  using try_block_unanswered [OF assms(2), of "prompt st" "messages (pending env st)" "pending env st"]
    assms(1)
  by (auto simp: handleSubmit_accepted pending_def is_save_def)

text \<open>The property at a sample input.\<close>

theorem failed_generation_keeps_user_turn_witness:
  "accepted (signed_in ''hello'' [] []) \<and>
   candidates_missing_or_empty reply_empty \<and>
   messages (fst (handleSubmit (sample_env (Body reply_empty) SaveResolved) (signed_in ''hello'' [] []))) =
     [\<lparr>text' = JStr ''hello'', isUser = True, timestamp = JDate 1000\<rparr>] \<and>
   list_all (\<lambda>e. \<not> is_save e)
     (fst (snd (handleSubmit (sample_env (Body reply_empty) SaveResolved) (signed_in ''hello'' [] [])))) \<and>
   \<not> isLoading (fst (handleSubmit (sample_env (Body reply_empty) SaveResolved) (signed_in ''hello'' [] [])))"
proof -
  have h: "accepted (signed_in ''hello'' [] [])"
    by (simp add: sample_defs)
  have m: "candidates_missing_or_empty reply_empty"
    by (simp add: candidates_missing_or_empty_def reply_empty_def)
  have g: "generation (sample_env (Body reply_empty) SaveResolved) = FetchRejected \<or>
           generation (sample_env (Body reply_empty) SaveResolved) = JsonRejected \<or>
           (\<exists>data. generation (sample_env (Body reply_empty) SaveResolved) = Body data \<and>
              candidates_missing_or_empty data)"
    using m by (simp add: sample_env_def)
  from failed_generation_keeps_user_turn [OF h g] h m
  show ?thesis by (simp add: sample_env_def signed_in_def)
qed

subsection \<open>Starting a new chat\<close>

text \<open>
  Claim C6, amended. For every buffer and archive: when the write to local storage
  does not throw, \<^verbatim>\<open>handleNewChat\<close> returns normally and leaves the buffer empty; if
  no message sequence occurs twice in the archive before the call, none occurs twice
  after it; on an empty buffer the call changes nothing and writes nothing; a second
  call right after the first adds nothing to the archive, so the two add at most one
  entry; and a call on a buffer refilled with the same Messages adds no entry. This
  holds whatever the serialisation \<open>stringify\<close> is.
\<close>

theorem new_chat_clears_and_dedups:
  "(storage = Written \<longrightarrow>
      messages (fst (handleNewChat stringify storage st)) = [] \<and>
      snd (snd (handleNewChat stringify storage st)) = Inr ()) \<and>
   (distinct (chatSessions st) \<longrightarrow>
      distinct (chatSessions (fst (handleNewChat stringify storage st)))) \<and>
   (messages st = [] \<longrightarrow> handleNewChat stringify storage st = (st, [], Inr ())) \<and>
   chatSessions (fst (handleNewChat stringify storage' (fst (handleNewChat stringify storage st)))) =
     chatSessions (fst (handleNewChat stringify storage st)) \<and>
   length (chatSessions
       (fst (handleNewChat stringify storage' (fst (handleNewChat stringify storage st)))))
     \<le> length (chatSessions st) + 1 \<and>
   chatSessions (fst (handleNewChat stringify storage'
       ((fst (handleNewChat stringify storage st))\<lparr>messages := messages st\<rparr>))) =
     chatSessions (fst (handleNewChat stringify storage st))"
proof -
  let ?t = "fst (handleNewChat stringify storage st)"
  have a: "messages ?t = [] \<and> snd (snd (handleNewChat stringify storage st)) = Inr ()"
    if "storage = Written"
    using that by (simp add: handleNewChat_messages handleNewChat_returns)
  have b: "distinct (chatSessions ?t)" if "distinct (chatSessions st)"
    using that by (auto simp: handleNewChat_archive)
  have c: "handleNewChat stringify storage st = (st, [], Inr ())" if "messages st = []"
    using that by (rule handleNewChat_empty)
  have d: "chatSessions (fst (handleNewChat stringify storage' ?t)) = chatSessions ?t"
    by (rule handleNewChat_twice)
  have e: "length (chatSessions (fst (handleNewChat stringify storage' ?t)))
             \<le> length (chatSessions st) + 1"
    unfolding d by (simp add: handleNewChat_archive)
  have f: "chatSessions (fst (handleNewChat stringify storage' (?t\<lparr>messages := messages st\<rparr>))) =
             chatSessions ?t"
    by (rule handleNewChat_again)
  from a b c d e f show ?thesis by blast
qed

text \<open>The property at a sample input.\<close>

theorem new_chat_clears_and_dedups_witness:
  "distinct (chatSessions (signed_in [] [user_turn ''q''] [[user_turn ''p'']])) \<and>
   handleNewChat (\<lambda>session. session) Written (signed_in [] [user_turn ''q''] [[user_turn ''p'']]) =
     (signed_in [] [] [[user_turn ''p''], [user_turn ''q'']],
      [StorageSet ''chatSessions'' [[user_turn ''p''], [user_turn ''q'']]], Inr ()) \<and>
   distinct (chatSessions (fst (handleNewChat (\<lambda>session. session) Written
      (signed_in [] [user_turn ''q''] [[user_turn ''p'']])))) \<and>
   messages (signed_in [] [] [[user_turn ''p'']]) = [] \<and>
   handleNewChat (\<lambda>session. session) Written (signed_in [] [] [[user_turn ''p'']]) =
     (signed_in [] [] [[user_turn ''p'']], [], Inr ())"
proof -
  let ?st = "signed_in [] [user_turn ''q''] [[user_turn ''p'']]"
  let ?e = "signed_in [] [] [[user_turn ''p'']]"
  have d: "distinct (chatSessions ?st)"
    by (simp add: signed_in_def)
  have r: "handleNewChat (\<lambda>session. session) Written ?st =
     (signed_in [] [] [[user_turn ''p''], [user_turn ''q'']],
      [StorageSet ''chatSessions'' [[user_turn ''p''], [user_turn ''q'']]], Inr ())"
    by (simp add: handleNewChat_def signed_in_def user_turn_def Let_def)
  have m: "messages ?e = []"
    by (simp add: signed_in_def)
  from new_chat_clears_and_dedups [of Written "\<lambda>session. session" ?st Written]
    new_chat_clears_and_dedups [of Written "\<lambda>session. session" ?e Written] d r m
  show ?thesis by simp
qed

text \<open>
  Claim C6 as stated fails twice. An archive that holds the same message sequence
  twice still holds it twice after \<^verbatim>\<open>handleNewChat\<close>, which compares the archive with
  the buffer only. And when the write to local storage throws, the session has been
  archived but the buffer is not cleared, and the exception leaves the handler.
\<close>

theorem new_chat_keeps_existing_duplicates:
  "handleNewChat (\<lambda>session. session) Written
      (signed_in [] [] [[user_turn ''q''], [user_turn ''q'']]) =
     (signed_in [] [] [[user_turn ''q''], [user_turn ''q'']], [], Inr ()) \<and>
   count_list (chatSessions (fst (handleNewChat (\<lambda>session. session) Written
      (signed_in [] [] [[user_turn ''q''], [user_turn ''q'']])))) [user_turn ''q''] = 2 \<and>
   handleNewChat (\<lambda>session. session) WriteThrows (signed_in [] [user_turn ''q''] []) =
     (signed_in [] [user_turn ''q''] [[user_turn ''q'']], [], Inl QuotaExceededError)"
  by (simp add: handleNewChat_def signed_in_def Let_def)

subsection \<open>Loading the history\<close>

text \<open>
  Claim C7. For every sequence of history records \<^verbatim>\<open>{prompt, response, timestamp}\<close>,
  \<^verbatim>\<open>fetchChatHistory\<close> replaces the buffer by the concatenation, in record order, of
  each record's expansion into the user Message with the prompt and the bot Message
  with the response, both with the record's timestamp: two Messages for each record.
\<close>

theorem history_loader_expansion:
  "fetchChatHistory (Body (JArr (map record_value recs))) st =
     (st\<lparr>messages := concat (map spec_expand recs)\<rparr>, [FetchHistory]) \<and>
   length (concat (map spec_expand recs)) = 2 * length recs"
proof -
  have "map_throwing expand (map record_value recs) = Inr (map spec_expand recs)"
    by (induction recs) (simp_all add: and_then_def expand_record)
  then have a: "fetchChatHistory (Body (JArr (map record_value recs))) st =
       (st\<lparr>messages := concat (map spec_expand recs)\<rparr>, [FetchHistory])"
    by (simp add: fetchChatHistory_def js_map_def)
  have b: "length (concat (map spec_expand recs)) = 2 * length recs"
    by (induction recs) (simp_all add: spec_expand_def)
  from a b show ?thesis by blast
qed

text \<open>The property at a sample input.\<close>

theorem history_loader_expansion_witness:
  "fetchChatHistory
     (Body (JArr [JObj [(''prompt'', JStr ''a''), (''response'', JStr ''b''), (''timestamp'', JNum 7)]]))
     (signed_in [] [user_turn ''old''] []) =
   (signed_in []
      [\<lparr>text' = JStr ''a'', isUser = True, timestamp = JNum 7\<rparr>,
       \<lparr>text' = JStr ''b'', isUser = False, timestamp = JNum 7\<rparr>] [],
    [FetchHistory])"
  using history_loader_expansion
    [of "[\<lparr>rec_prompt = JStr ''a'', rec_response = JStr ''b'', rec_timestamp = JNum 7\<rparr>]"
        "signed_in [] [user_turn ''old''] []"]
  by (simp add: record_value_def spec_expand_def signed_in_def)

subsection \<open>Submissions without identity or prompt\<close>

text \<open>
  Claim C8. A call of \<^verbatim>\<open>handleSubmit\<close> with an absent identity, or with a prompt that
  trims to the empty string, leaves the state, hence the buffer, as it was; its only
  effect is \<^verbatim>\<open>preventDefault\<close>, so no network request is issued.
\<close>

theorem submit_without_identity_or_prompt_noop: "\<not> truthy (user st) \<or> trim (prompt st) = [] \<Longrightarrow>
   fst (handleSubmit env st) = st \<and> fst (snd (handleSubmit env st)) = [PreventDefault] \<and>
   list_all (\<lambda>e. \<not> is_network e) (fst (snd (handleSubmit env st)))"
  by (auto simp: handleSubmit_def)

text \<open>The property at a sample input.\<close>

theorem submit_without_identity_or_prompt_noop_witness:
  "\<not> truthy (user (signed_out ''hello'' [user_turn ''q''])) \<and>
   fst (handleSubmit (sample_env (Body reply_hi) SaveResolved) (signed_out ''hello'' [user_turn ''q''])) =
     signed_out ''hello'' [user_turn ''q''] \<and>
   trim (prompt (signed_in ''  '' [user_turn ''q''] [])) = [] \<and>
   fst (handleSubmit (sample_env (Body reply_hi) SaveResolved) (signed_in ''  '' [user_turn ''q''] [])) =
     signed_in ''  '' [user_turn ''q''] []"
proof -
  have a: "\<not> truthy (user (signed_out ''hello'' [user_turn ''q'']))"
    by (simp add: signed_out_def)
  have b: "trim (prompt (signed_in ''  '' [user_turn ''q''] [])) = []"
    by (simp add: signed_in_def trim_def is_ws_def)
  from a have a': "\<not> truthy (user (signed_out ''hello'' [user_turn ''q''])) \<or>
                   trim (prompt (signed_out ''hello'' [user_turn ''q''])) = []" by simp
  from b have b': "\<not> truthy (user (signed_in ''  '' [user_turn ''q''] [])) \<or>
                   trim (prompt (signed_in ''  '' [user_turn ''q''] [])) = []" by simp
  from submit_without_identity_or_prompt_noop [OF a']
    submit_without_identity_or_prompt_noop [OF b'] a b
  show ?thesis by simp
qed

subsection \<open>What the limit counts\<close>

text \<open>
  Claim C9, amended. The limit check compares the number of all Messages in the buffer
  with \<open>maxMessagesPerSession\<close>: a call with an identity and a non-blank prompt ends in
  the limit notice exactly when the buffer holds at least that many Messages. An
  accepted call leaves at most \<open>maxMessagesPerSession + 1\<close> Messages. In a sequence of
  submissions whose generation requests are all answered with a reply, whatever the
  buffer it starts from, at most \<open>maxMessagesPerSession div 2\<close> (10) submissions are
  accepted.
\<close>

theorem limit_counts_all_messages:
  "(truthy (user st) \<and> trim (prompt st) \<noteq> [] \<longrightarrow>
      (fst (snd (handleSubmit env st)) =
         [PreventDefault, Alert ''Chat limit reached. Please start a new chat.''])
       = (maxMessagesPerSession \<le> length (messages st))) \<and>
   (accepted st \<longrightarrow> length (messages (fst (handleSubmit env st))) \<le> maxMessagesPerSession + 1) \<and>
   ((\<forall>step \<in> set steps. answered (snd step)) \<longrightarrow>
      count_accepted steps st \<le> maxMessagesPerSession div 2)"
proof -
  have a: "(fst (snd (handleSubmit env st)) =
         [PreventDefault, Alert ''Chat limit reached. Please start a new chat.''])
       = (maxMessagesPerSession \<le> length (messages st))"
    if "truthy (user st)" "trim (prompt st) \<noteq> []"
  proof (cases "maxMessagesPerSession \<le> length (messages st)")
    case True
    then show ?thesis using that by (simp add: handleSubmit_def)
  next
    case False
    then have "accepted st" using that by (simp add: accepted_def)
    then show ?thesis using False
      by (auto simp: handleSubmit_accepted try_block_def Let_def
          split: prod.splits sum.splits fetch_result.splits if_splits save_result.splits)
  qed
  have b: "length (messages (fst (handleSubmit env st))) \<le> maxMessagesPerSession + 1"
    if "accepted st"
    using length_completed [OF that, of env] that by (auto simp: accepted_def)
  have c: "count_accepted steps st \<le> maxMessagesPerSession div 2"
    if "\<forall>step \<in> set steps. answered (snd step)"
    using count_answered [OF that, of st] by (simp add: maxMessagesPerSession_def)
  from a b c show ?thesis by blast
qed



text \<open>The property at a sample input.\<close>

theorem limit_counts_all_messages_witness:
  "answered (sample_env (Body reply_hi) SaveResolved) \<and>
   all_accepted (replicate 10 (''hi'', sample_env (Body reply_hi) SaveResolved))
     (signed_in [] [user_turn ''old''] []) \<and>
   count_accepted (replicate 10 (''hi'', sample_env (Body reply_hi) SaveResolved))
     (signed_in [] [user_turn ''old''] []) = 10 \<and>
   length (messages (submits (replicate 10 (''hi'', sample_env (Body reply_hi) SaveResolved))
     (signed_in [] [user_turn ''old''] []))) = 21 \<and>
   length (filter isUser (messages
     (signed_in ''hello'' (replicate 10 (user_turn ''q'') @ replicate 10 (bot_turn ''r'')) []))) = 10 \<and>
   fst (snd (handleSubmit (sample_env (Body reply_hi) SaveResolved)
     (signed_in ''hello'' (replicate 10 (user_turn ''q'') @ replicate 10 (bot_turn ''r'')) []))) =
     [PreventDefault, Alert ''Chat limit reached. Please start a new chat.'']"
proof -
  let ?env = "sample_env (Body reply_hi) SaveResolved"
  let ?full = "signed_in ''hello'' (replicate 10 (user_turn ''q'') @ replicate 10 (bot_turn ''r'')) []"
  let ?old = "signed_in [] [user_turn ''old''] []"
  have a: "answered ?env"
    by (simp add: sample_defs handler_defs)
  have e: "\<forall>step \<in> set (replicate 10 (''hi'', ?env)). answered (snd step)"
    using a by simp
  have n: "all_accepted (replicate 10 (''hi'', ?env)) ?old \<and>
           count_accepted (replicate 10 (''hi'', ?env)) ?old = 10 \<and>
           length (messages (submits (replicate 10 (''hi'', ?env)) ?old)) = 21"
    using answered_run [OF a, of ?old "''hi''" 10] by (simp add: sample_defs)
  have u: "truthy (user ?full) \<and> trim (prompt ?full) \<noteq> []"
    by (simp add: sample_defs)
  have c: "length (filter isUser (messages ?full)) = 10"
    by (simp add: sample_defs)
  have f: "maxMessagesPerSession \<le> length (messages ?full)"
    by (simp add: sample_defs)
  from limit_counts_all_messages [of ?full ?env "[]"]
    limit_counts_all_messages [of ?old ?env "replicate 10 (''hi'', ?env)"] u f a e n c
  show ?thesis by simp
qed

text \<open>
  Claim C9 as stated fails in its last part: from the empty buffer, eleven submissions
  whose generation requests are rejected are all accepted, and the buffer then holds
  eleven user Messages.
\<close>

theorem eleven_unanswered_turns_accepted:
  "all_accepted (replicate 11 (''hi'', sample_env FetchRejected SaveResolved)) (signed_in [] [] []) \<and>
   count_accepted (replicate 11 (''hi'', sample_env FetchRejected SaveResolved)) (signed_in [] [] []) = 11 \<and>
   length (filter isUser (messages (submits (replicate 11 (''hi'', sample_env FetchRejected SaveResolved))
     (signed_in [] [] [])))) = 11"
  using unanswered_run [of "sample_env FetchRejected SaveResolved" "signed_in [] [] []" "''hi''" 11]
  by (simp add: sample_defs)

subsection \<open>A reply without its text path\<close>

text \<open>
  Claim C10, amended. For every accepted call answered with a body whose
  \<^verbatim>\<open>candidates\<close> is a non-empty array and whose first candidate has no
  \<^verbatim>\<open>content.parts[0]\<close> (reading it throws, or gives \<^verbatim>\<open>undefined\<close> or \<^verbatim>\<open>null\<close>), the
  read of the reply throws inside the \<^verbatim>\<open>try\<close>: the buffer gains the user Message only,
  the effects are the generation request and the logged error, no save request is
  issued, the call completes normally and the loading flag is cleared.
\<close>

theorem broken_reply_path_is_caught:
  assumes "accepted st" and "generation env = Body data"
    and "js_prop data ''candidates'' = Inr (JArr (c # cs))" and "lacks_part c"
  shows "messages (fst (handleSubmit env st)) =
           messages st @
             [\<lparr>text' = JStr (prompt st), isUser = True, timestamp = JDate (now_user env)\<rparr>] \<and>
         fst (snd (handleSubmit env st)) =
           [PreventDefault, FetchGenerate (apiKey env) (generate_body (prompt st)),
            ConsoleError ''Error:''] \<and>
         snd (snd (handleSubmit env st)) = Fulfilled_Undefined \<and>
         \<not> isLoading (fst (handleSubmit env st))"
proof -
  have hc: "has_candidates env data = Inr True"
    using assms(3) by (simp add: has_candidates_def and_then_def)
  have br: "botReply data = Inl TypeError"
    using assms(3,4) by (rule botReply_lacks_part)
  show ?thesis
    using assms(1,2) hc br by (simp add: handleSubmit_accepted try_block_def pending_def)
qed

text \<open>The property at a sample input.\<close>

theorem broken_reply_path_is_caught_witness:
  "accepted (signed_in ''hello'' [] []) \<and>
   js_prop reply_no_part ''candidates'' = Inr (JArr [JObj [(''content'', JObj [(''parts'', JArr [])])]]) \<and>
   lacks_part (JObj [(''content'', JObj [(''parts'', JArr [])])]) \<and>
   handleSubmit (sample_env (Body reply_no_part) SaveResolved) (signed_in ''hello'' [] []) =
     ((signed_in [] [\<lparr>text' = JStr ''hello'', isUser = True, timestamp = JDate 1000\<rparr>] []),
      [PreventDefault, FetchGenerate ''key'' (generate_body ''hello''), ConsoleError ''Error:''],
      Fulfilled_Undefined)"
proof -
  let ?env = "sample_env (Body reply_no_part) SaveResolved"
  let ?st = "signed_in ''hello'' [] []"
  have h: "accepted ?st"
    by (simp add: sample_defs)
  have g: "generation ?env = Body reply_no_part"
    by (simp add: sample_env_def)
  have c: "js_prop reply_no_part ''candidates'' =
             Inr (JArr [JObj [(''content'', JObj [(''parts'', JArr [])])]])"
    by (simp add: reply_no_part_def)
  have l: "lacks_part (JObj [(''content'', JObj [(''parts'', JArr [])])])"
    by (simp add: lacks_part_def and_then_def)
  have s: "fst (handleSubmit ?env ?st) =
             signed_in [] [\<lparr>text' = JStr ''hello'', isUser = True, timestamp = JDate 1000\<rparr>] []"
    by (simp add: sample_defs handler_defs reply_no_part_def)
  from broken_reply_path_is_caught [OF h g c l] s h c l
  show ?thesis by (simp add: sample_env_def signed_in_def prod_eq_iff)
qed

text \<open>
  Claim C10 as stated fails: when \<^verbatim>\<open>content.parts[0]\<close> is an object with no \<^verbatim>\<open>text\<close>,
  the read gives \<^verbatim>\<open>undefined\<close> without throwing, a bot Message with that text is
  appended and the save request is issued.
\<close>

theorem missing_text_is_appended:
  "accepted (signed_in ''hello'' [] []) \<and>
   js_prop reply_no_text ''candidates'' = Inr (JArr [JObj [(''content'', JObj [(''parts'', JArr [JObj []])])]]) \<and>
   js_prop (JObj []) ''text'' = Inr JUndefined \<and>
   handleSubmit (sample_env (Body reply_no_text) SaveResolved) (signed_in ''hello'' [] []) =
     ((signed_in []
        [\<lparr>text' = JStr ''hello'', isUser = True, timestamp = JDate 1000\<rparr>,
         \<lparr>text' = JUndefined, isUser = False, timestamp = JDate 2000\<rparr>] []),
      [PreventDefault, FetchGenerate ''key'' (generate_body ''hello''),
       FetchSave (JObj [(''prompt'', JStr ''hello''), (''response'', JUndefined)])],
      Fulfilled_Undefined)"
  by (simp add: sample_defs handler_defs)

end
